theory Spec2Isabelle
  imports Main
begin

section \<open>Python text and printing\<close>

text \<open>
  A Python \<open>str\<close> is a sequence of Unicode code points, and is modelled as the list of
  their numbers.  The string literals of the source are ASCII; \<open>lit\<close> writes a literal as
  the \<open>str\<close> it denotes, character by character.  \<open>print(s)\<close> writes \<open>s\<close> followed by a line feed to standard
  output, which is modelled as the text written so far.
\<close>

type_synonym py_str = "nat list"

abbreviation lit :: "string \<Rightarrow> py_str" where
  "lit s \<equiv> map of_char s"

definition newline :: nat where
  "newline = 10"

definition py_print :: "py_str \<Rightarrow> py_str" where
  "py_print s = s @ [newline]"

text \<open>
  \<open>str.isspace\<close> on one character.  Python counts 29 code points as whitespace: TAB, LF,
  VT, FF, CR, the separators FS, GS, RS, US, the space, NEL (U+0085), the no-break space
  (U+00A0), U+1680, U+2000 to U+200A, U+2028, U+2029, U+202F, U+205F and U+3000.
\<close>

definition isspace :: "nat \<Rightarrow> bool" where
  "isspace c =
     (c \<in> {9, 10, 11, 12, 13, 28, 29, 30, 31, 32, 133, 160, 5760,
            8192, 8193, 8194, 8195, 8196, 8197, 8198, 8199, 8200, 8201, 8202,
            8232, 8233, 8239, 8287, 12288})"

text \<open>\<open>str.strip()\<close> with no argument removes the leading and the trailing whitespace.\<close>

definition lstrip :: "py_str \<Rightarrow> py_str" where
  "lstrip s = dropWhile isspace s"

definition rstrip :: "py_str \<Rightarrow> py_str" where
  "rstrip s = rev (dropWhile isspace (rev s))"

definition strip :: "py_str \<Rightarrow> py_str" where
  "strip s = rstrip (lstrip s)"

text \<open>
  What "\<open>t\<close> is \<open>s\<close> with its leading and trailing whitespace stripped" means,
  said without \<open>strip\<close>: \<open>s\<close> is \<open>t\<close> between two runs of whitespace, and \<open>t\<close>
  neither starts nor ends with whitespace.
\<close>

definition stripped_of :: "py_str \<Rightarrow> py_str \<Rightarrow> bool" where
  "stripped_of s t =
     (\<exists>pre post. s = pre @ t @ post \<and> list_all isspace pre \<and> list_all isspace post
        \<and> (t = [] \<or> (\<not> isspace (hd t) \<and> \<not> isspace (last t))))"

text \<open>\<open>str(n)\<close> for an integer, as the f-string of the error banner formats it.\<close>

definition digit_char :: "nat \<Rightarrow> nat" where
  "digit_char d = 48 + d"

fun str_of_nat :: "nat \<Rightarrow> py_str" where
  "str_of_nat n = (if n < 10 then [digit_char n] else str_of_nat (n div 10) @ [digit_char (n mod 10)])"

definition str_of_int :: "int \<Rightarrow> py_str" where
  "str_of_int i = (if i < 0 then lit ''-'' @ str_of_nat (nat (- i)) else str_of_nat (nat i))"

text \<open>
  The lines of a text, as a terminal shows them: every line feed ends a line, and text
  after the last line feed is a last line of its own.
\<close>

fun lines_from :: "py_str \<Rightarrow> py_str \<Rightarrow> py_str list" where
  "lines_from cur [] = (if cur = [] then [] else [cur])"
| "lines_from cur (c # cs) =
     (if c = newline then cur # lines_from [] cs else lines_from (cur @ [c]) cs)"

definition output_lines :: "py_str \<Rightarrow> py_str list" where
  "output_lines s = lines_from [] s"

section \<open>Exceptions, and how a process ends\<close>

text \<open>
  What a call can raise falls into three classes, by the handlers of \<open>run_ssh_command\<close>:
  \<open>subprocess.TimeoutExpired\<close>; any other instance of \<open>Exception\<close>, carried with its
  \<open>str(e)\<close>; and the exceptions that are not instances of \<open>Exception\<close>, of which
  \<open>KeyboardInterrupt\<close> (Ctrl-C while the call waits for the child) is the one that
  arises here.
\<close>

datatype py_exception = TimeoutExpired | OtherException py_str | KeyboardInterrupt

text \<open>
  A script ends by running off its last statement (\<open>Normal\<close>), by \<open>sys.exit(n)\<close>, or by
  an exception nobody caught.  On POSIX the exit status that the parent process sees is a byte:
  after \<open>sys.exit(n)\<close> it is \<open>n\<close> modulo 256, so \<open>sys.exit(-1)\<close> is seen as 255.  An
  uncaught \<open>Exception\<close> gives status 1 after the traceback; on an uncaught
  \<open>KeyboardInterrupt\<close> the interpreter kills itself with \<open>SIGINT\<close>, and the process has
  no exit status.
\<close>

datatype proc_end = Normal | SysExit int | Uncaught py_exception

fun exit_status :: "proc_end \<Rightarrow> int option" where
  "exit_status Normal = Some 0"
| "exit_status (SysExit n) = Some (n mod 256)"
| "exit_status (Uncaught e) = (if e = KeyboardInterrupt then None else Some 1)"

section \<open>The environment: \<open>subprocess.run\<close>\<close>

text \<open>
  \<open>run_ssh_command\<close> calls
  \<open>subprocess.run(ssh_cmd, capture_output=True, text=True, timeout=30)\<close>.  The call
  receives the argument vector and the keyword arguments, and either returns a
  \<open>CompletedProcess\<close> or raises.
\<close>

record completed_process =
  cp_returncode :: int
  cp_stdout :: py_str
  cp_stderr :: py_str

record run_kwargs =
  kw_capture_output :: bool
  kw_text :: bool
  kw_timeout :: nat

type_synonym subprocess = "py_str list \<Rightarrow> run_kwargs \<Rightarrow> py_exception + completed_process"

text \<open>
  What the call does, from what happens to the child process.  The child exits with a
  return code and the bytes it wrote to its two pipes (a byte is a \<open>char\<close>, bytes a
  \<open>string\<close>), or it outlives the timeout, or it cannot be started (\<open>OSError\<close>, carried
  with its text), or the user interrupts the wait.  In text mode the captured bytes are decoded, standard output first: \<open>decode\<close> is
  the text layer (the locale's codec with strict error handling, then universal
  newlines), and \<open>Inl\<close> is the text of the \<open>UnicodeDecodeError\<close> it raises on bytes
  that are not valid in the encoding.  So a child that exits normally can still make
  the call raise.
\<close>

datatype child_outcome =
  Exited int string string | TimedOut | SpawnFailed py_str | Interrupted

definition py_subprocess_run ::
  "(py_str list \<Rightarrow> nat \<Rightarrow> child_outcome) \<Rightarrow> (string \<Rightarrow> py_str + py_str) \<Rightarrow> subprocess" where
  "py_subprocess_run os_run decode argv kw =
     (case os_run argv (kw_timeout kw) of
        Exited rc out err \<Rightarrow>
          (case decode out of
             Inl m \<Rightarrow> Inl (OtherException m)
           | Inr so \<Rightarrow>
               (case decode err of
                  Inl m \<Rightarrow> Inl (OtherException m)
                | Inr se \<Rightarrow> Inr \<lparr>cp_returncode = rc, cp_stdout = so, cp_stderr = se\<rparr>))
      | TimedOut \<Rightarrow> Inl TimeoutExpired
      | SpawnFailed m \<Rightarrow> Inl (OtherException m)
      | Interrupted \<Rightarrow> Inl KeyboardInterrupt)"

text \<open>
  The text layer of a locale whose encoding is ASCII: a byte of 128 or more raises
  \<open>UnicodeDecodeError\<close>, whose text names the first such byte and its position;
  otherwise \<open>\r\n\<close> and \<open>\r\<close> become \<open>\n\<close>.
\<close>

fun translate_newlines :: "py_str \<Rightarrow> py_str" where
  "translate_newlines [] = []"
| "translate_newlines [c] = [if c = 13 then 10 else c]"
| "translate_newlines (c # d # cs) =
     (if c = 13 \<and> d = 10 then 10 # translate_newlines cs
      else if c = 13 then 10 # translate_newlines (d # cs)
      else c # translate_newlines (d # cs))"

definition hex_digit :: "nat \<Rightarrow> nat" where
  "hex_digit d = (if d < 10 then 48 + d else 87 + d)"

fun first_non_ascii :: "nat \<Rightarrow> string \<Rightarrow> (nat \<times> nat) option" where
  "first_non_ascii i [] = None"
| "first_non_ascii i (b # bs) =
     (if (of_char b :: nat) < 128 then first_non_ascii (Suc i) bs else Some (i, of_char b))"

definition ascii_text :: "string \<Rightarrow> py_str + py_str" where
  "ascii_text bs =
     (case first_non_ascii 0 bs of
        None \<Rightarrow> Inr (translate_newlines (map of_char bs))
      | Some (i, b) \<Rightarrow>
          Inl ([39] @ lit ''ascii'' @ [39] @ lit '' codec can'' @ [39] @ lit ''t decode byte 0x''
               @ [hex_digit (b div 16), hex_digit (b mod 16)]
               @ lit '' in position '' @ str_of_nat i
               @ lit '': ordinal not in range(128)''))"

section \<open>remote\_mgr.py\<close>

text \<open>The dictionary that \<open>run_ssh_command\<close> returns, with its four keys.\<close>

record exec_result =
  success :: bool
  stdout :: py_str
  stderr :: py_str
  returncode :: int

text \<open>
  Lines 11 to 17: the argument vector.  \<open>if key_file:\<close> is Python truthiness, so
  \<open>None\<close> and the empty string both skip the \<open>-i\<close> option.
\<close>

definition ssh_cmd :: "py_str \<Rightarrow> py_str \<Rightarrow> py_str \<Rightarrow> py_str option \<Rightarrow> py_str list" where
  "ssh_cmd host user command key_file =
     [lit ''ssh'', lit ''-o'', lit ''StrictHostKeyChecking=no'', lit ''-o'', lit ''BatchMode=yes'']
     @ (case key_file of
          None \<Rightarrow> []
        | Some k \<Rightarrow> if k = [] then [] else [lit ''-i'', k])
     @ [user @ lit ''@'' @ host]
     @ [command]"

definition ssh_run_kwargs :: run_kwargs where
  "ssh_run_kwargs = \<lparr>kw_capture_output = True, kw_text = True, kw_timeout = 30\<rparr>"

text \<open>
  Lines 19 to 40: the call and its two handlers.  The result is \<open>Inr\<close> of the dictionary
  returned; \<open>Inl e\<close> is an exception that leaves the function.  \<open>except Exception\<close> does
  not catch \<open>KeyboardInterrupt\<close>.
\<close>

definition run_ssh_command ::
  "subprocess \<Rightarrow> py_str \<Rightarrow> py_str \<Rightarrow> py_str \<Rightarrow> py_str option \<Rightarrow> py_exception + exec_result" where
  "run_ssh_command subprocess_run host user command key_file =
     (case subprocess_run (ssh_cmd host user command key_file) ssh_run_kwargs of
        Inr result \<Rightarrow>
          Inr \<lparr>success = (cp_returncode result = 0),
               stdout = strip (cp_stdout result),
               stderr = strip (cp_stderr result),
               returncode = cp_returncode result\<rparr>
      | Inl TimeoutExpired \<Rightarrow>
          Inr \<lparr>success = False, stdout = [], stderr = lit ''Connection timed out.'',
               returncode = - 1\<rparr>
      | Inl (OtherException e) \<Rightarrow>
          Inr \<lparr>success = False, stdout = [], stderr = e, returncode = - 1\<rparr>
      | Inl KeyboardInterrupt \<Rightarrow> Inl KeyboardInterrupt)"

text \<open>
  Lines 42 to 63: the command line.  \<open>argparse\<close> has filled the namespace (\<open>--user\<close>
  defaults to \<open>root\<close>, \<open>--key\<close> to \<open>None\<close>); the model starts from it and gives back
  the text printed and how the process ends.
\<close>

record args =
  arg_host :: py_str
  arg_command :: py_str
  arg_user :: py_str
  arg_key :: "py_str option"

definition remote_mgr_main :: "subprocess \<Rightarrow> args \<Rightarrow> py_str \<times> proc_end" where
  "remote_mgr_main subprocess_run a =
     (let banner = py_print (lit ''[TuringClaw] Connecting to '' @ arg_user a @ lit ''@''
                             @ arg_host a @ lit ''...'')
      in case run_ssh_command subprocess_run (arg_host a) (arg_user a) (arg_command a) (arg_key a) of
           Inl e \<Rightarrow> (banner, Uncaught e)
         | Inr result \<Rightarrow>
             if success result then
               (banner
                  @ py_print (lit ''[SUCCESS] Command executed on '' @ arg_host a @ lit '':''
                              @ [newline])
                  @ py_print (stdout result),
                Normal)
             else
               (banner
                  @ py_print (lit ''[ERROR] Failed to execute command on '' @ arg_host a
                              @ lit '' (Code: '' @ str_of_int (returncode result) @ lit ''):''
                              @ [newline])
                  @ (if stdout result = [] then []
                     else py_print (lit ''STDOUT: '' @ stdout result))
                  @ (if stderr result = [] then []
                     else py_print (lit ''STDERR: '' @ stderr result)),
                SysExit (returncode result)))"

section \<open>mock\_ssh.py\<close>

definition uptime_report :: py_str where
  "uptime_report = lit '' 10:00:00 up 10 days,  2:30,  1 user,  load average: 0.00, 0.01, 0.05''"

definition connected_banner :: "py_str \<Rightarrow> py_str" where
  "connected_banner host = lit ''[SSH Connected to '' @ host @ lit '']''"

definition executing_banner :: "py_str \<Rightarrow> py_str" where
  "executing_banner cmd = lit ''[Executing]: '' @ cmd"

text \<open>
  \<open>main\<close> reads \<open>sys.argv\<close>, whose first element is the script's name, so the
  positional arguments are the elements after it.
\<close>

definition main :: "py_str list \<Rightarrow> py_str \<times> proc_end" where
  "main argv =
     (if length argv < 3 then (py_print (lit ''Usage: python mock_ssh.py <host> <cmd>''), SysExit 1)
      else
        (let host = argv ! 1; cmd = argv ! 2
         in (py_print (connected_banner host)
               @ py_print (executing_banner cmd)
               @ (if cmd = lit ''uptime'' then py_print uptime_report
                  else py_print (lit ''Command executed successfully.'')),
             Normal)))"

section \<open>Facts about lines and stripping\<close>




lemma strip_split:
  "s = takeWhile isspace s @ strip s @ rev (takeWhile isspace (rev (lstrip s)))"
proof -
  have "rev (lstrip s) = takeWhile isspace (rev (lstrip s)) @ dropWhile isspace (rev (lstrip s))"
    by simp
  then have "lstrip s = rev (takeWhile isspace (rev (lstrip s)) @ dropWhile isspace (rev (lstrip s)))"
    by (metis rev_rev_ident)
  then have "lstrip s = strip s @ rev (takeWhile isspace (rev (lstrip s)))"
    unfolding strip_def rstrip_def rev_append .
  moreover have "s = takeWhile isspace s @ lstrip s"
    by (simp add: lstrip_def)
  ultimately show ?thesis by metis
qed

lemma strip_last: "strip s \<noteq> [] \<Longrightarrow> \<not> isspace (last (strip s))"
  unfolding strip_def rstrip_def
  by (metis hd_dropWhile last_rev rev_is_Nil_conv)

lemma strip_hd: "strip s \<noteq> [] \<Longrightarrow> \<not> isspace (hd (strip s))"
proof -
  assume ne: "strip s \<noteq> []"
  have eq: "lstrip s = strip s @ rev (takeWhile isspace (rev (lstrip s)))"
    using strip_split [of s] by (simp add: lstrip_def) (metis append_eq_append_conv takeWhile_dropWhile_id)
  with ne have "hd (lstrip s) = hd (strip s)" and "lstrip s \<noteq> []"
    by (metis hd_append2, metis append_is_Nil_conv)
  then show ?thesis
    by (metis hd_dropWhile lstrip_def)
qed

lemma strip_stripped_of: "stripped_of s (strip s)"
  unfolding stripped_of_def
proof (intro exI conjI)
  show "s = takeWhile isspace s @ strip s @ rev (takeWhile isspace (rev (lstrip s)))"
    by (rule strip_split)
  show "list_all isspace (takeWhile isspace s)"
    by (simp add: list_all_iff) (meson set_takeWhileD)
  show "list_all isspace (rev (takeWhile isspace (rev (lstrip s))))"
    by (simp add: list_all_iff) (meson set_takeWhileD)
  show "strip s = [] \<or> \<not> isspace (hd (strip s)) \<and> \<not> isspace (last (strip s))"
    using strip_hd strip_last by blast
qed

lemma stripped_of_unique:
  assumes "stripped_of s t"
  shows "t = strip s"
proof -
  from assms obtain pre post where s: "s = pre @ t @ post"
    and pre: "list_all isspace pre" and post: "list_all isspace post"
    and t: "t = [] \<or> (\<not> isspace (hd t) \<and> \<not> isspace (last t))"
    unfolding stripped_of_def by blast
  show ?thesis
  proof (cases "t = []")
    case True
    with s pre post have "list_all isspace s" by simp
    then have "lstrip s = []" by (simp add: list_all_iff lstrip_def)
    then have "strip s = []" by (simp add: strip_def rstrip_def)
    with True show ?thesis by simp
  next
    case False
    with t have h: "\<not> isspace (hd t)" and l: "\<not> isspace (last t)" by auto
    from False obtain a t' where ta: "t = a # t'" by (cases t) auto
    have "dropWhile isspace s = dropWhile isspace (t @ post)"
      using s pre by (simp add: list_all_iff dropWhile_append2)
    also have "\<dots> = t @ post" using h ta by simp
    finally have ls: "lstrip s = t @ post" by (simp add: lstrip_def)
    have "\<And>x. x \<in> set (rev post) \<Longrightarrow> isspace x"
      using post by (simp add: list_all_iff)
    then have "dropWhile isspace (rev post @ rev t) = dropWhile isspace (rev t)"
      by (rule dropWhile_append2)
    then have "dropWhile isspace (rev (t @ post)) = dropWhile isspace (rev t)"
      by simp
    also have "\<dots> = rev t"
      using l False by (metis dropWhile_eq_self_iff hd_rev rev_is_Nil_conv)
    finally show ?thesis using ls by (simp add: strip_def rstrip_def)
  qed
qed

text \<open>So \<open>strip s\<close> is the one text that is \<open>s\<close> stripped of its surrounding whitespace.\<close>

lemma stripped_of_iff: "stripped_of s t \<longleftrightarrow> t = strip s"
  using strip_stripped_of stripped_of_unique by blast

section \<open>Facts about the call and its text layer\<close>

lemma run_ssh_command_completed:
  assumes "subprocess_run (ssh_cmd host user command key_file) ssh_run_kwargs = Inr cp"
  shows "run_ssh_command subprocess_run host user command key_file
           = Inr \<lparr>success = (cp_returncode cp = 0), stdout = strip (cp_stdout cp),
                  stderr = strip (cp_stderr cp), returncode = cp_returncode cp\<rparr>"
  using assms by (simp add: run_ssh_command_def)

lemma py_subprocess_run_exited:
  assumes "os_run argv (kw_timeout kw) = Exited rc out err"
    and "decode out = Inr so" and "decode err = Inr se"
  shows "py_subprocess_run os_run decode argv kw
           = Inr \<lparr>cp_returncode = rc, cp_stdout = so, cp_stderr = se\<rparr>"
  using assms by (simp add: py_subprocess_run_def)

lemma py_subprocess_run_undecodable:
  assumes "os_run argv (kw_timeout kw) = Exited rc out err"
    and "decode out = Inl m \<or> (\<exists>so. decode out = Inr so \<and> decode err = Inl m)"
  shows "py_subprocess_run os_run decode argv kw = Inl (OtherException m)"
  using assms by (auto simp add: py_subprocess_run_def)

lemma kw_timeout_ssh_run_kwargs: "kw_timeout ssh_run_kwargs = 30"
  by (simp add: ssh_run_kwargs_def)

lemma run_ssh_command_exited:
  assumes "os_run (ssh_cmd host user command key_file) 30 = Exited rc out err"
    and "decode out = Inr so" and "decode err = Inr se"
  shows "run_ssh_command (py_subprocess_run os_run decode) host user command key_file
           = Inr \<lparr>success = (rc = 0), stdout = strip so, stderr = strip se, returncode = rc\<rparr>"
proof -
  have "py_subprocess_run os_run decode (ssh_cmd host user command key_file) ssh_run_kwargs
          = Inr \<lparr>cp_returncode = rc, cp_stdout = so, cp_stderr = se\<rparr>"
    using assms by (intro py_subprocess_run_exited) (simp_all add: kw_timeout_ssh_run_kwargs)
  from run_ssh_command_completed
         [where subprocess_run = "py_subprocess_run os_run decode", OF this]
  show ?thesis
    by simp
qed

text \<open>
  \<open>strip\<close> takes off whitespace of every kind on both sides, the code points above
  U+00FF too, and nothing else: the zero width space U+200B and the Mongolian vowel
  separator U+180E are not whitespace.
\<close>

lemma strip_unicode_whitespace:
  "strip ([9, 10, 11, 12, 13, 28, 29, 30, 31, 32, 133, 160, 5760, 8192, 8193, 8194, 8195]
          @ lit ''up 3 days''
          @ [8196, 8197, 8198, 8199, 8200, 8201, 8202, 8232, 8233, 8239, 8287, 12288])
     = lit ''up 3 days''"
  by (simp add: strip_def lstrip_def rstrip_def isspace_def)

lemma strip_keeps_other_characters:
  "strip ([8203] @ lit ''ok'' @ [6158]) = [8203] @ lit ''ok'' @ [6158]"
  by (simp add: strip_def lstrip_def rstrip_def isspace_def)

text \<open>
  The text that the command line prints, on a run that succeeds and on two that fail.
\<close>

lemma remote_mgr_main_output_success:
  "fst (remote_mgr_main
          (py_subprocess_run (\<lambda>argv t. Exited 0 (''  up 3 days'' @ [CHR 0x0D, CHR 0x0A]) [])
             ascii_text)
          \<lparr>arg_host = lit ''server1'', arg_command = lit ''uptime'', arg_user = lit ''root'',
           arg_key = None\<rparr>)
     = lit ''[TuringClaw] Connecting to root@server1...'' @ [10]
       @ lit ''[SUCCESS] Command executed on server1:'' @ [10, 10]
       @ lit ''up 3 days'' @ [10]"
  by (simp add: remote_mgr_main_def Let_def run_ssh_command_def py_subprocess_run_def
        ascii_text_def py_print_def newline_def strip_def lstrip_def rstrip_def isspace_def)

lemma remote_mgr_main_output_failure:
  "output_lines (fst (remote_mgr_main
          (py_subprocess_run
             (\<lambda>argv t. Exited 127 (''partial'' @ [CHR 0x0A]) (''sh: foo: not found'' @ [CHR 0x0A]))
             ascii_text)
          \<lparr>arg_host = lit ''server1'', arg_command = lit ''foo'', arg_user = lit ''root'',
           arg_key = None\<rparr>))
     = [lit ''[TuringClaw] Connecting to root@server1...'',
        lit ''[ERROR] Failed to execute command on server1 (Code: 127):'',
        [],
        lit ''STDOUT: partial'',
        lit ''STDERR: sh: foo: not found'']"
  by (simp add: remote_mgr_main_def Let_def run_ssh_command_def py_subprocess_run_def
        ascii_text_def py_print_def newline_def strip_def lstrip_def rstrip_def isspace_def
        str_of_int_def digit_char_def output_lines_def)

lemma remote_mgr_main_output_spawn_failure:
  "output_lines (fst (remote_mgr_main
          (py_subprocess_run
             (\<lambda>argv t. SpawnFailed (lit ''[Errno 2] No such file or directory: 'ssh'' @ [39]))
             ascii_text)
          \<lparr>arg_host = lit ''server1'', arg_command = lit ''uptime'', arg_user = lit ''root'',
           arg_key = None\<rparr>))
     = [lit ''[TuringClaw] Connecting to root@server1...'',
        lit ''[ERROR] Failed to execute command on server1 (Code: -1):'',
        [],
        lit ''STDERR: [Errno 2] No such file or directory: 'ssh'' @ [39]]"
  by (simp add: remote_mgr_main_def Let_def run_ssh_command_def py_subprocess_run_def
        py_print_def newline_def str_of_int_def digit_char_def output_lines_def)

section \<open>The result of \<open>run_ssh_command\<close>\<close>

text \<open>
  C1, as the code has it.  When the SSH subprocess completes within the timeout with exit
  code \<open>N\<close> and what it wrote to its standard output and standard error decodes as text,
  the result returned has \<open>returncode = N\<close>, and \<open>success\<close> is true exactly when
  \<open>N = 0\<close>.
\<close>

theorem run_ssh_command_exit_code:
  assumes "os_run (ssh_cmd host user command key_file) 30 = Exited N out err"
    and "decode out = Inr so" and "decode err = Inr se"
  shows "\<exists>r. run_ssh_command (py_subprocess_run os_run decode) host user command key_file = Inr r
           \<and> returncode r = N \<and> success r = (N = 0)"
  using run_ssh_command_exited [where os_run = os_run and decode = decode, OF assms] by simp

theorem run_ssh_command_exit_code_witness:
  "(\<exists>r. run_ssh_command
          (py_subprocess_run (\<lambda>argv t. Exited 0 (''up 3 days'' @ [CHR 0x0A]) []) ascii_text)
          (lit ''server1'') (lit ''root'') (lit ''uptime'') None = Inr r
        \<and> returncode r = 0 \<and> success r = True)
   \<and> (\<exists>r. run_ssh_command
          (py_subprocess_run (\<lambda>argv t. Exited 255 [] (''Permission denied'' @ [CHR 0x0A])) ascii_text)
          (lit ''server1'') (lit ''root'') (lit ''uptime'') None = Inr r
        \<and> returncode r = 255 \<and> success r = False)"
proof -
  have d1: "ascii_text (''up 3 days'' @ [CHR 0x0A]) = Inr (lit ''up 3 days'' @ [10])"
    by (simp add: ascii_text_def)
  have d2: "ascii_text [] = Inr []"
    by (simp add: ascii_text_def)
  have d3: "ascii_text (''Permission denied'' @ [CHR 0x0A]) = Inr (lit ''Permission denied'' @ [10])"
    by (simp add: ascii_text_def)
  show ?thesis
    using run_ssh_command_exit_code
            [of "\<lambda>argv t. Exited 0 (''up 3 days'' @ [CHR 0x0A]) []"
                "lit ''server1''" "lit ''root''" "lit ''uptime''" None
                0 "''up 3 days'' @ [CHR 0x0A]" "[]" ascii_text, OF refl d1 d2]
          run_ssh_command_exit_code
            [of "\<lambda>argv t. Exited 255 [] (''Permission denied'' @ [CHR 0x0A])"
                "lit ''server1''" "lit ''root''" "lit ''uptime''" None
                255 "[]" "''Permission denied'' @ [CHR 0x0A]" ascii_text, OF refl d2 d3]
    by simp
qed

text \<open>
  As first stated, for every subprocess that completes within the timeout, C1 fails when
  the output is not text in the locale's encoding.  Under an ASCII locale, a remote command
  that writes \<open>ok\<close> and the byte \<open>0xff\<close> and exits with code 0 makes
  \<open>subprocess.run\<close> raise \<open>UnicodeDecodeError\<close> inside the \<open>try\<close>; the second
  handler turns it into a result with \<open>returncode = -1\<close> and no success.
\<close>

theorem run_ssh_command_exit_code_counterexample:
  "run_ssh_command
       (py_subprocess_run (\<lambda>argv t. Exited 0 (''ok'' @ [CHR 0xFF]) []) ascii_text)
       (lit ''server1'') (lit ''root'') (lit ''cat report.bin'') None
     = Inr \<lparr>success = False, stdout = [],
            stderr = [39] @ lit ''ascii'' @ [39]
                     @ lit '' codec can't decode byte 0xff in position 2: ordinal not in range(128)'',
            returncode = - 1\<rparr>
   \<and> (\<nexists>r. run_ssh_command
            (py_subprocess_run (\<lambda>argv t. Exited 0 (''ok'' @ [CHR 0xFF]) []) ascii_text)
            (lit ''server1'') (lit ''root'') (lit ''cat report.bin'') None = Inr r
          \<and> returncode r = 0 \<and> success r = True)"
  by (simp add: run_ssh_command_def py_subprocess_run_def ascii_text_def hex_digit_def
        digit_char_def)

text \<open>
  C2.  When the subprocess exceeds the timeout, which the call sets to 30 seconds, the
  result is exactly: no success, exit code -1, empty standard output, and the standard
  error \<open>Connection timed out.\<close>
\<close>

theorem run_ssh_command_timeout:
  assumes "subprocess_run (ssh_cmd host user command key_file) ssh_run_kwargs = Inl TimeoutExpired"
  shows "kw_timeout ssh_run_kwargs = 30
         \<and> run_ssh_command subprocess_run host user command key_file
             = Inr \<lparr>success = False, stdout = [], stderr = lit ''Connection timed out.'',
                    returncode = - 1\<rparr>"
  using assms by (simp add: run_ssh_command_def ssh_run_kwargs_def)

theorem run_ssh_command_timeout_witness:
  "run_ssh_command (py_subprocess_run (\<lambda>argv t. if t < 45 then TimedOut else Exited 0 [] [])
                                       ascii_text)
       (lit ''server1'') (lit ''root'') (lit ''sleep 45'') (Some (lit ''/root/.ssh/id_rsa''))
     = Inr \<lparr>success = False, stdout = [], stderr = lit ''Connection timed out.'',
            returncode = - 1\<rparr>"
  using run_ssh_command_timeout
          [of "py_subprocess_run (\<lambda>argv t. if t < 45 then TimedOut else Exited 0 [] []) ascii_text"
              "lit ''server1''" "lit ''root''" "lit ''sleep 45''" "Some (lit ''/root/.ssh/id_rsa'')"]
  by (simp add: ssh_run_kwargs_def py_subprocess_run_def)

text \<open>
  C3.  When spawning or running the subprocess raises an error other than a timeout, the
  result has no success, exit code -1, and the error's text as standard error.
\<close>

theorem run_ssh_command_other_error:
  assumes "subprocess_run (ssh_cmd host user command key_file) ssh_run_kwargs = Inl (OtherException msg)"
  shows "\<exists>r. run_ssh_command subprocess_run host user command key_file = Inr r
           \<and> success r = False \<and> returncode r = - 1 \<and> stderr r = msg"
  using assms by (simp add: run_ssh_command_def)

theorem run_ssh_command_other_error_witness:
  "\<exists>r. run_ssh_command
         (py_subprocess_run
            (\<lambda>argv t. SpawnFailed (lit ''[Errno 2] No such file or directory: 'ssh'' @ [39]))
            ascii_text)
         (lit ''server1'') (lit ''root'') (lit ''uptime'') None = Inr r
       \<and> success r = False \<and> returncode r = - 1
       \<and> stderr r = lit ''[Errno 2] No such file or directory: 'ssh'' @ [39]"
  using run_ssh_command_other_error
          [of "py_subprocess_run
                 (\<lambda>argv t. SpawnFailed (lit ''[Errno 2] No such file or directory: 'ssh'' @ [39]))
                 ascii_text"
              "lit ''server1''" "lit ''root''" "lit ''uptime''" None
              "lit ''[Errno 2] No such file or directory: 'ssh'' @ [39]"]
  by (simp add: py_subprocess_run_def)

text \<open>
  C4, as the code has it.  When the subprocess completes and what it wrote to its standard
  output and standard error decodes as text, the standard output and standard error of the
  result are the decoded texts with leading and trailing whitespace stripped.
\<close>

theorem run_ssh_command_strips_output:
  assumes "os_run (ssh_cmd host user command key_file) 30 = Exited N out err"
    and "decode out = Inr so" and "decode err = Inr se"
  shows "\<exists>r. run_ssh_command (py_subprocess_run os_run decode) host user command key_file = Inr r
           \<and> stdout r = strip so \<and> stripped_of so (stdout r)
           \<and> stderr r = strip se \<and> stripped_of se (stderr r)"
  using run_ssh_command_exited [where os_run = os_run and decode = decode, OF assms]
  by (simp add: strip_stripped_of)

text \<open>
  Two runs.  The first is under an ASCII locale, with a carriage return and a line feed
  after the standard output, and a tab before and a carriage return after the standard
  error.  The second is under a text layer that reads the bytes \<open>e3 80 80 6f 6b e2 80 a8\<close>
  as UTF-8 does: the ideographic space U+3000, \<open>ok\<close>, and the line separator U+2028.
\<close>

theorem run_ssh_command_strips_output_witness:
  "(\<exists>r. run_ssh_command
         (py_subprocess_run
            (\<lambda>argv t. Exited 0 (''  up 3 days'' @ [CHR 0x0D, CHR 0x0A])
                                ([CHR 0x09] @ ''Warning: added host key.'' @ [CHR 0x0D]))
            ascii_text)
         (lit ''server1'') (lit ''root'') (lit ''uptime'') None = Inr r
       \<and> stdout r = lit ''up 3 days''
       \<and> stripped_of (lit ''  up 3 days'' @ [10]) (stdout r)
       \<and> stderr r = lit ''Warning: added host key.''
       \<and> stripped_of ([9] @ lit ''Warning: added host key.'' @ [10]) (stderr r))
   \<and> (\<exists>r. run_ssh_command
         (py_subprocess_run
            (\<lambda>argv t. Exited 0 [CHR 0xE3, CHR 0x80, CHR 0x80, CHR 0x6F, CHR 0x6B,
                                 CHR 0xE2, CHR 0x80, CHR 0xA8] [])
            (\<lambda>bs. if bs = [CHR 0xE3, CHR 0x80, CHR 0x80, CHR 0x6F, CHR 0x6B,
                                CHR 0xE2, CHR 0x80, CHR 0xA8]
                       then Inr ([12288] @ lit ''ok'' @ [8232]) else ascii_text bs))
         (lit ''server1'') (lit ''root'') (lit ''uptime'') None = Inr r
       \<and> stdout r = lit ''ok''
       \<and> stripped_of ([12288] @ lit ''ok'' @ [8232]) (stdout r)
       \<and> stderr r = []
       \<and> stripped_of [] (stderr r))"
proof (intro conjI)
  have d1: "ascii_text (''  up 3 days'' @ [CHR 0x0D, CHR 0x0A]) = Inr (lit ''  up 3 days'' @ [10])"
    by (simp add: ascii_text_def)
  have d2: "ascii_text ([CHR 0x09] @ ''Warning: added host key.'' @ [CHR 0x0D])
              = Inr ([9] @ lit ''Warning: added host key.'' @ [10])"
    by (simp add: ascii_text_def)
  have s1: "strip (lit ''  up 3 days'' @ [10]) = lit ''up 3 days''"
    by (simp add: strip_def lstrip_def rstrip_def isspace_def)
  have s2: "strip ([9] @ lit ''Warning: added host key.'' @ [10]) = lit ''Warning: added host key.''"
    by (simp add: strip_def lstrip_def rstrip_def isspace_def)
  from run_ssh_command_strips_output
         [of "\<lambda>argv t. Exited 0 (''  up 3 days'' @ [CHR 0x0D, CHR 0x0A])
                                  ([CHR 0x09] @ ''Warning: added host key.'' @ [CHR 0x0D])"
             "lit ''server1''" "lit ''root''" "lit ''uptime''" None
             0 "''  up 3 days'' @ [CHR 0x0D, CHR 0x0A]"
             "[CHR 0x09] @ ''Warning: added host key.'' @ [CHR 0x0D]" ascii_text, OF refl d1 d2]
  show "\<exists>r. run_ssh_command
         (py_subprocess_run
            (\<lambda>argv t. Exited 0 (''  up 3 days'' @ [CHR 0x0D, CHR 0x0A])
                                ([CHR 0x09] @ ''Warning: added host key.'' @ [CHR 0x0D]))
            ascii_text)
         (lit ''server1'') (lit ''root'') (lit ''uptime'') None = Inr r
       \<and> stdout r = lit ''up 3 days''
       \<and> stripped_of (lit ''  up 3 days'' @ [10]) (stdout r)
       \<and> stderr r = lit ''Warning: added host key.''
       \<and> stripped_of ([9] @ lit ''Warning: added host key.'' @ [10]) (stderr r)"
    unfolding s1 s2 .
next
  let ?bytes = "[CHR 0xE3, CHR 0x80, CHR 0x80, CHR 0x6F, CHR 0x6B, CHR 0xE2, CHR 0x80, CHR 0xA8]"
  let ?decode = "\<lambda>bs. if bs = ?bytes then Inr ([12288] @ lit ''ok'' @ [8232]) else ascii_text bs"
  have d1: "?decode ?bytes = Inr ([12288] @ lit ''ok'' @ [8232])"
    by simp
  have d2: "?decode [] = Inr []"
    by (simp add: ascii_text_def)
  have s1: "strip ([12288] @ lit ''ok'' @ [8232]) = lit ''ok''"
    by (simp add: strip_def lstrip_def rstrip_def isspace_def)
  have s2: "strip [] = []"
    by (simp add: strip_def lstrip_def rstrip_def)
  from run_ssh_command_strips_output
         [of "\<lambda>argv t. Exited 0 ?bytes []"
             "lit ''server1''" "lit ''root''" "lit ''uptime''" None
             0 ?bytes "[]" ?decode, OF refl d1 d2]
  show "\<exists>r. run_ssh_command (py_subprocess_run (\<lambda>argv t. Exited 0 ?bytes []) ?decode)
         (lit ''server1'') (lit ''root'') (lit ''uptime'') None = Inr r
       \<and> stdout r = lit ''ok''
       \<and> stripped_of ([12288] @ lit ''ok'' @ [8232]) (stdout r)
       \<and> stderr r = []
       \<and> stripped_of [] (stderr r)"
    unfolding s1 s2 .
qed

text \<open>
  As first stated, for every subprocess that completes normally, C4 fails when one of the
  two streams is not text in the locale's encoding.  Under an ASCII locale, a remote command
  that writes \<open>ok\<close> and a line feed to its standard output and the byte \<open>0xe9\<close> to its
  standard error, and exits with code 0, gives a result whose standard output is empty
  (not \<open>ok\<close>) and whose standard error is the text of the \<open>UnicodeDecodeError\<close>.
\<close>

theorem run_ssh_command_strips_output_counterexample:
  "run_ssh_command
       (py_subprocess_run (\<lambda>argv t. Exited 0 (''ok'' @ [CHR 0x0A]) [CHR 0xE9]) ascii_text)
       (lit ''server1'') (lit ''root'') (lit ''make report'') None
     = Inr \<lparr>success = False, stdout = [],
            stderr = [39] @ lit ''ascii'' @ [39]
                     @ lit '' codec can't decode byte 0xe9 in position 0: ordinal not in range(128)'',
            returncode = - 1\<rparr>
   \<and> ascii_text (''ok'' @ [CHR 0x0A]) = Inr (lit ''ok'' @ [10])
   \<and> strip (lit ''ok'' @ [10]) = lit ''ok''
   \<and> lit ''ok'' \<noteq> []"
  by (simp add: run_ssh_command_def py_subprocess_run_def ascii_text_def hex_digit_def
        digit_char_def strip_def lstrip_def rstrip_def isspace_def)

text \<open>
  C9, as the code has it.  Whatever the host, user, command and key path,
  \<open>run_ssh_command\<close> returns a result, with the fields \<open>success\<close>, \<open>stdout\<close>,
  \<open>stderr\<close> and \<open>returncode\<close>, whenever the call of \<open>subprocess.run\<close> returns or
  raises an instance of \<open>Exception\<close>: a child that times out, cannot be started or writes
  undecodable output is caught by one of the two handlers.  An exception that is not an
  instance of \<open>Exception\<close> passes both handlers and leaves the function.
\<close>

theorem run_ssh_command_total:
  "(os_run (ssh_cmd host user command key_file) 30 \<noteq> Interrupted \<longrightarrow>
      (\<exists>r. run_ssh_command (py_subprocess_run os_run decode) host user command key_file = Inr r))
   \<and> (subprocess_run (ssh_cmd host user command key_file) ssh_run_kwargs \<noteq> Inl KeyboardInterrupt \<longrightarrow>
      (\<exists>r. run_ssh_command subprocess_run host user command key_file = Inr r))
   \<and> (subprocess_run (ssh_cmd host user command key_file) ssh_run_kwargs = Inl KeyboardInterrupt \<longrightarrow>
      run_ssh_command subprocess_run host user command key_file = Inl KeyboardInterrupt)"
proof (intro conjI impI)
  assume "os_run (ssh_cmd host user command key_file) 30 \<noteq> Interrupted"
  then show "\<exists>r. run_ssh_command (py_subprocess_run os_run decode) host user command key_file = Inr r"
    by (cases "os_run (ssh_cmd host user command key_file) 30")
       (simp_all add: run_ssh_command_def py_subprocess_run_def ssh_run_kwargs_def
          split: sum.splits)
next
  assume "subprocess_run (ssh_cmd host user command key_file) ssh_run_kwargs \<noteq> Inl KeyboardInterrupt"
  then show "\<exists>r. run_ssh_command subprocess_run host user command key_file = Inr r"
    by (simp add: run_ssh_command_def split: sum.splits py_exception.splits)
next
  assume "subprocess_run (ssh_cmd host user command key_file) ssh_run_kwargs = Inl KeyboardInterrupt"
  then show "run_ssh_command subprocess_run host user command key_file = Inl KeyboardInterrupt"
    by (simp add: run_ssh_command_def)
qed

theorem run_ssh_command_total_witness:
  "(\<exists>r. run_ssh_command (py_subprocess_run (\<lambda>argv t. TimedOut) ascii_text)
          (lit ''server1'') (lit ''root'') (lit ''uptime'') None = Inr r)
   \<and> (\<exists>r. run_ssh_command
          (py_subprocess_run (\<lambda>argv t. SpawnFailed (lit ''[Errno 13] Permission denied: 'ssh'' @ [39]))
             ascii_text)
          (lit ''server1'') (lit ''root'') (lit ''uptime'') None = Inr r)
   \<and> (\<exists>r. run_ssh_command (py_subprocess_run (\<lambda>argv t. Exited 0 [CHR 0x80] []) ascii_text)
          (lit ''server1'') (lit ''root'') (lit ''uptime'') None = Inr r)
   \<and> (\<exists>r. run_ssh_command (\<lambda>argv kw. Inl (OtherException (lit ''embedded null byte'')))
          (lit ''server1'') (lit ''root'') (lit ''uptime'') None = Inr r)
   \<and> run_ssh_command (\<lambda>argv kw. Inl KeyboardInterrupt)
          (lit ''server1'') (lit ''root'') (lit ''uptime'') None = Inl KeyboardInterrupt"
  using run_ssh_command_total
          [where os_run = "\<lambda>argv t. TimedOut" and decode = ascii_text
             and subprocess_run = "\<lambda>argv kw. Inl (OtherException (lit ''embedded null byte''))"
             and host = "lit ''server1''" and user = "lit ''root''" and command = "lit ''uptime''"
             and key_file = None]
        run_ssh_command_total
          [where os_run = "\<lambda>argv t. SpawnFailed (lit ''[Errno 13] Permission denied: 'ssh'' @ [39])"
             and decode = ascii_text
             and subprocess_run = "\<lambda>argv kw. Inl KeyboardInterrupt"
             and host = "lit ''server1''" and user = "lit ''root''" and command = "lit ''uptime''"
             and key_file = None]
        run_ssh_command_total
          [where os_run = "\<lambda>argv t. Exited 0 [CHR 0x80] []" and decode = ascii_text
             and subprocess_run = "\<lambda>argv kw. Inl TimeoutExpired"
             and host = "lit ''server1''" and user = "lit ''root''" and command = "lit ''uptime''"
             and key_file = None]
  by simp

text \<open>
  As first stated, that no exception ever reaches the caller, C9 fails: when the user
  interrupts the wait for the child, \<open>subprocess.run\<close> raises \<open>KeyboardInterrupt\<close>,
  neither handler matches it, \<open>run_ssh_command\<close> returns no result, and the command
  line ends with the exception uncaught.
\<close>

theorem run_ssh_command_total_counterexample:
  "run_ssh_command (py_subprocess_run (\<lambda>argv t. Interrupted) ascii_text)
       (lit ''server1'') (lit ''root'') (lit ''sleep 20'') None
     = Inl KeyboardInterrupt
   \<and> (\<nexists>r. run_ssh_command (py_subprocess_run (\<lambda>argv t. Interrupted) ascii_text)
            (lit ''server1'') (lit ''root'') (lit ''sleep 20'') None = Inr r)
   \<and> snd (remote_mgr_main (py_subprocess_run (\<lambda>argv t. Interrupted) ascii_text)
            \<lparr>arg_host = lit ''server1'', arg_command = lit ''sleep 20'', arg_user = lit ''root'',
             arg_key = None\<rparr>)
       = Uncaught KeyboardInterrupt"
  by (simp add: run_ssh_command_def py_subprocess_run_def remote_mgr_main_def Let_def)

text \<open>
  C10.  Every result that \<open>run_ssh_command\<close> returns, on the timeout and the failure
  branches too, has \<open>success\<close> true exactly when \<open>returncode\<close> is 0.
\<close>

theorem run_ssh_command_success_iff:
  assumes "run_ssh_command subprocess_run host user command key_file = Inr r"
  shows "success r = (returncode r = 0)"
  using assms
  by (auto simp add: run_ssh_command_def split: sum.splits py_exception.splits)

theorem run_ssh_command_success_iff_witness:
  "(\<exists>r. run_ssh_command (\<lambda>argv kw. Inr \<lparr>cp_returncode = 0, cp_stdout = lit ''ok'', cp_stderr = []\<rparr>)
          (lit ''server1'') (lit ''root'') (lit ''uptime'') None = Inr r
        \<and> success r = (returncode r = 0))
   \<and> (\<exists>r. run_ssh_command (\<lambda>argv kw. Inr \<lparr>cp_returncode = 127, cp_stdout = [], cp_stderr = lit ''not found''\<rparr>)
          (lit ''server1'') (lit ''root'') (lit ''uptime'') None = Inr r
        \<and> success r = (returncode r = 0))
   \<and> (\<exists>r. run_ssh_command (\<lambda>argv kw. Inl TimeoutExpired)
          (lit ''server1'') (lit ''root'') (lit ''uptime'') None = Inr r
        \<and> success r = (returncode r = 0))
   \<and> (\<exists>r. run_ssh_command (\<lambda>argv kw. Inl (OtherException (lit ''spawn failed'')))
          (lit ''server1'') (lit ''root'') (lit ''uptime'') None = Inr r
        \<and> success r = (returncode r = 0))"
proof (intro conjI)
  let ?ok = "\<lambda>argv kw. Inr \<lparr>cp_returncode = 0, cp_stdout = lit ''ok'', cp_stderr = []\<rparr> :: py_exception + completed_process"
  let ?bad = "\<lambda>argv kw. Inr \<lparr>cp_returncode = 127, cp_stdout = [], cp_stderr = lit ''not found''\<rparr> :: py_exception + completed_process"
  let ?slow = "\<lambda>argv kw. Inl TimeoutExpired :: py_exception + completed_process"
  let ?gone = "\<lambda>argv kw. Inl (OtherException (lit ''spawn failed'')) :: py_exception + completed_process"
  have ok: "run_ssh_command ?ok (lit ''server1'') (lit ''root'') (lit ''uptime'') None
      = Inr \<lparr>success = True, stdout = lit ''ok'', stderr = [], returncode = 0\<rparr>"
    by (simp add: run_ssh_command_def strip_def lstrip_def rstrip_def isspace_def)
  have bad: "run_ssh_command ?bad (lit ''server1'') (lit ''root'') (lit ''uptime'') None
      = Inr \<lparr>success = False, stdout = [], stderr = lit ''not found'', returncode = 127\<rparr>"
    by (simp add: run_ssh_command_def strip_def lstrip_def rstrip_def isspace_def)
  have slow: "run_ssh_command ?slow (lit ''server1'') (lit ''root'') (lit ''uptime'') None
      = Inr \<lparr>success = False, stdout = [], stderr = lit ''Connection timed out.'', returncode = - 1\<rparr>"
    by (simp add: run_ssh_command_def)
  have gone: "run_ssh_command ?gone (lit ''server1'') (lit ''root'') (lit ''uptime'') None
      = Inr \<lparr>success = False, stdout = [], stderr = lit ''spawn failed'', returncode = - 1\<rparr>"
    by (simp add: run_ssh_command_def)
  show "\<exists>r. run_ssh_command ?ok (lit ''server1'') (lit ''root'') (lit ''uptime'') None = Inr r
          \<and> success r = (returncode r = 0)"
    using run_ssh_command_success_iff [OF ok] ok by blast
  show "\<exists>r. run_ssh_command ?bad (lit ''server1'') (lit ''root'') (lit ''uptime'') None = Inr r
          \<and> success r = (returncode r = 0)"
    using run_ssh_command_success_iff [OF bad] bad by blast
  show "\<exists>r. run_ssh_command ?slow (lit ''server1'') (lit ''root'') (lit ''uptime'') None = Inr r
          \<and> success r = (returncode r = 0)"
    using run_ssh_command_success_iff [OF slow] slow by blast
  show "\<exists>r. run_ssh_command ?gone (lit ''server1'') (lit ''root'') (lit ''uptime'') None = Inr r
          \<and> success r = (returncode r = 0)"
    using run_ssh_command_success_iff [OF gone] gone by blast
qed

section \<open>The SSH invocation\<close>

text \<open>
  C5, as the code has it.  The argument vector is the client \<open>ssh\<close>, the options
  \<open>StrictHostKeyChecking=no\<close> and \<open>BatchMode=yes\<close>, then \<open>-i\<close> with the key path
  exactly when the key path is a non-empty string (\<open>None\<close> and the empty string both
  leave the option out), then \<open>user@host\<close>, then the command as the last argument; and
  \<open>run_ssh_command\<close> consults the subprocess on this vector and the fixed keyword
  arguments only.
\<close>

theorem run_ssh_command_invocation:
  "ssh_cmd host user command None
     = [lit ''ssh'', lit ''-o'', lit ''StrictHostKeyChecking=no'', lit ''-o'', lit ''BatchMode=yes'',
        user @ lit ''@'' @ host, command]
   \<and> ssh_cmd host user command (Some [])
     = [lit ''ssh'', lit ''-o'', lit ''StrictHostKeyChecking=no'', lit ''-o'', lit ''BatchMode=yes'',
        user @ lit ''@'' @ host, command]
   \<and> (k \<noteq> [] \<longrightarrow> ssh_cmd host user command (Some k)
     = [lit ''ssh'', lit ''-o'', lit ''StrictHostKeyChecking=no'', lit ''-o'', lit ''BatchMode=yes'',
        lit ''-i'', k, user @ lit ''@'' @ host, command])
   \<and> run_ssh_command subprocess_run host user command key_file
     = run_ssh_command (\<lambda>argv kw. subprocess_run (ssh_cmd host user command key_file) ssh_run_kwargs)
         host user command key_file"
  by (simp add: ssh_cmd_def run_ssh_command_def)

theorem run_ssh_command_invocation_witness:
  "ssh_cmd (lit ''server1'') (lit ''admin'') (lit ''uptime'') (Some (lit ''/root/.ssh/id_rsa''))
     = [lit ''ssh'', lit ''-o'', lit ''StrictHostKeyChecking=no'', lit ''-o'', lit ''BatchMode=yes'',
        lit ''-i'', lit ''/root/.ssh/id_rsa'', lit ''admin@server1'', lit ''uptime'']"
  using run_ssh_command_invocation
          [of "lit ''server1''" "lit ''admin''" "lit ''uptime''" "lit ''/root/.ssh/id_rsa''"]
  by simp

text \<open>
  As first stated, with \<open>-i\<close> whenever a key path is supplied, C5 fails for the empty
  key path: the vector has no \<open>-i\<close>, and a subprocess that looks for it does not see it.
\<close>

theorem run_ssh_command_invocation_counterexample:
  "ssh_cmd (lit ''server1'') (lit ''root'') (lit ''uptime'') (Some [])
     = [lit ''ssh'', lit ''-o'', lit ''StrictHostKeyChecking=no'', lit ''-o'', lit ''BatchMode=yes'',
        lit ''root@server1'', lit ''uptime'']
   \<and> ssh_cmd (lit ''server1'') (lit ''root'') (lit ''uptime'') (Some [])
     \<noteq> [lit ''ssh'', lit ''-o'', lit ''StrictHostKeyChecking=no'', lit ''-o'', lit ''BatchMode=yes'',
        lit ''-i'', [], lit ''root@server1'', lit ''uptime'']
   \<and> run_ssh_command
         (\<lambda>argv kw. if lit ''-i'' \<in> set argv then Inl (OtherException (lit ''identity option given''))
                     else Inl (OtherException (lit ''no identity option'')))
         (lit ''server1'') (lit ''root'') (lit ''uptime'') (Some [])
     = Inr \<lparr>success = False, stdout = [], stderr = lit ''no identity option'', returncode = - 1\<rparr>"
  by (simp add: ssh_cmd_def run_ssh_command_def)

section \<open>The exit code of the remote executor's command line\<close>

text \<open>
  C6, as the code has it.  When the result has \<open>success\<close> false, the process exits
  through \<open>sys.exit\<close> called with the result's \<open>returncode\<close>, which is the remote
  command's code, or -1 after a timeout or a spawn error; the exit status of the process
  is that number modulo 256, so 255 after a timeout or a spawn error.  When \<open>success\<close> is
  true there is no call of \<open>sys.exit\<close> and the process ends normally, with status 0.
\<close>

theorem remote_mgr_main_exit_code:
  assumes "run_ssh_command subprocess_run (arg_host a) (arg_user a) (arg_command a) (arg_key a) = Inr result"
  shows "snd (remote_mgr_main subprocess_run a)
           = (if success result then Normal else SysExit (returncode result))
       \<and> exit_status (snd (remote_mgr_main subprocess_run a))
           = Some (if success result then 0 else returncode result mod 256)
       \<and> returncode result
           = (case subprocess_run (ssh_cmd (arg_host a) (arg_user a) (arg_command a) (arg_key a)) ssh_run_kwargs of
                Inr cp \<Rightarrow> cp_returncode cp
              | Inl e \<Rightarrow> - 1)"
  using assms
  by (auto simp add: remote_mgr_main_def Let_def run_ssh_command_def split: sum.splits py_exception.splits)

theorem remote_mgr_main_exit_code_witness:
  "snd (remote_mgr_main (py_subprocess_run (\<lambda>argv t. Exited 0 (''ok'' @ [CHR 0x0A]) []) ascii_text)
          \<lparr>arg_host = lit ''server1'', arg_command = lit ''uptime'', arg_user = lit ''root'',
           arg_key = None\<rparr>) = Normal
   \<and> exit_status
        (snd (remote_mgr_main (py_subprocess_run (\<lambda>argv t. Exited 0 (''ok'' @ [CHR 0x0A]) []) ascii_text)
          \<lparr>arg_host = lit ''server1'', arg_command = lit ''uptime'', arg_user = lit ''root'',
           arg_key = None\<rparr>)) = Some 0
   \<and> snd (remote_mgr_main (py_subprocess_run (\<lambda>argv t. Exited 127 [] []) ascii_text)
          \<lparr>arg_host = lit ''server1'', arg_command = lit ''uptime'', arg_user = lit ''root'',
           arg_key = None\<rparr>) = SysExit 127
   \<and> exit_status
        (snd (remote_mgr_main (py_subprocess_run (\<lambda>argv t. Exited 127 [] []) ascii_text)
          \<lparr>arg_host = lit ''server1'', arg_command = lit ''uptime'', arg_user = lit ''root'',
           arg_key = None\<rparr>)) = Some 127
   \<and> snd (remote_mgr_main (py_subprocess_run (\<lambda>argv t. Exited (- 9) [] []) ascii_text)
          \<lparr>arg_host = lit ''server1'', arg_command = lit ''uptime'', arg_user = lit ''root'',
           arg_key = None\<rparr>) = SysExit (- 9)
   \<and> exit_status
        (snd (remote_mgr_main (py_subprocess_run (\<lambda>argv t. Exited (- 9) [] []) ascii_text)
          \<lparr>arg_host = lit ''server1'', arg_command = lit ''uptime'', arg_user = lit ''root'',
           arg_key = None\<rparr>)) = Some 247"
proof -
  let ?a = "\<lparr>arg_host = lit ''server1'', arg_command = lit ''uptime'', arg_user = lit ''root'',
            arg_key = None\<rparr>"
  let ?ok = "py_subprocess_run (\<lambda>argv t. Exited 0 (''ok'' @ [CHR 0x0A]) []) ascii_text"
  let ?bad = "py_subprocess_run (\<lambda>argv t. Exited 127 [] []) ascii_text"
  let ?killed = "py_subprocess_run (\<lambda>argv t. Exited (- 9) [] []) ascii_text"
  have ok: "run_ssh_command ?ok (arg_host ?a) (arg_user ?a) (arg_command ?a) (arg_key ?a)
      = Inr \<lparr>success = True, stdout = lit ''ok'', stderr = [], returncode = 0\<rparr>"
    by (simp add: run_ssh_command_def py_subprocess_run_def ascii_text_def
          strip_def lstrip_def rstrip_def isspace_def)
  have bad: "run_ssh_command ?bad (arg_host ?a) (arg_user ?a) (arg_command ?a) (arg_key ?a)
      = Inr \<lparr>success = False, stdout = [], stderr = [], returncode = 127\<rparr>"
    by (simp add: run_ssh_command_def py_subprocess_run_def ascii_text_def
          strip_def lstrip_def rstrip_def isspace_def)
  have killed: "run_ssh_command ?killed (arg_host ?a) (arg_user ?a) (arg_command ?a) (arg_key ?a)
      = Inr \<lparr>success = False, stdout = [], stderr = [], returncode = - 9\<rparr>"
    by (simp add: run_ssh_command_def py_subprocess_run_def ascii_text_def
          strip_def lstrip_def rstrip_def isspace_def)
  show ?thesis
    using remote_mgr_main_exit_code [OF ok] remote_mgr_main_exit_code [OF bad]
          remote_mgr_main_exit_code [OF killed]
    by simp
qed

text \<open>
  As first stated, with the process exiting with -1 after a timeout or a spawn error, C6
  fails: \<open>sys.exit(-1)\<close> is called, and the exit status of the process is 255.
\<close>

theorem remote_mgr_main_exit_code_counterexample:
  "run_ssh_command (py_subprocess_run (\<lambda>argv t. if t < 45 then TimedOut else Exited 0 [] []) ascii_text)
       (lit ''server1'') (lit ''root'') (lit ''sleep 45'') None
     = Inr \<lparr>success = False, stdout = [], stderr = lit ''Connection timed out.'', returncode = - 1\<rparr>
   \<and> snd (remote_mgr_main
            (py_subprocess_run (\<lambda>argv t. if t < 45 then TimedOut else Exited 0 [] []) ascii_text)
            \<lparr>arg_host = lit ''server1'', arg_command = lit ''sleep 45'', arg_user = lit ''root'',
             arg_key = None\<rparr>) = SysExit (- 1)
   \<and> exit_status (snd (remote_mgr_main
            (py_subprocess_run (\<lambda>argv t. if t < 45 then TimedOut else Exited 0 [] []) ascii_text)
            \<lparr>arg_host = lit ''server1'', arg_command = lit ''sleep 45'', arg_user = lit ''root'',
             arg_key = None\<rparr>)) = Some 255
   \<and> exit_status (snd (remote_mgr_main
            (py_subprocess_run (\<lambda>argv t. if t < 45 then TimedOut else Exited 0 [] []) ascii_text)
            \<lparr>arg_host = lit ''server1'', arg_command = lit ''sleep 45'', arg_user = lit ''root'',
             arg_key = None\<rparr>)) \<noteq> Some (- 1)"
  by (simp add: remote_mgr_main_def Let_def run_ssh_command_def py_subprocess_run_def
        ssh_run_kwargs_def)

section \<open>The mock responder\<close>




text \<open>
  C8.  With fewer than two positional arguments, \<open>main\<close> prints the usage text, the one
  line \<open>Usage: python mock_ssh.py <host> <cmd>\<close>, and nothing else, and the process exits
  with status 1; with two or more it ends with status 0.
\<close>

theorem main_exit_status:
  "(length args < 2 \<longrightarrow>
      fst (main (prog # args)) = lit ''Usage: python mock_ssh.py <host> <cmd>'' @ [10]
      \<and> output_lines (fst (main (prog # args))) = [lit ''Usage: python mock_ssh.py <host> <cmd>'']
      \<and> snd (main (prog # args)) = SysExit 1
      \<and> exit_status (snd (main (prog # args))) = Some 1)
   \<and> (2 \<le> length args \<longrightarrow>
      snd (main (prog # args)) = Normal
      \<and> exit_status (snd (main (prog # args))) = Some 0)"
  by (simp add: main_def Let_def py_print_def newline_def output_lines_def)

theorem main_exit_status_witness:
  "fst (main [lit ''mock_ssh.py''])
     = [85, 115, 97, 103, 101, 58, 32, 112, 121, 116, 104, 111, 110, 32, 109, 111, 99, 107, 95,
        115, 115, 104, 46, 112, 121, 32, 60, 104, 111, 115, 116, 62, 32, 60, 99, 109, 100, 62, 10]
   \<and> output_lines (fst (main [lit ''mock_ssh.py''])) = [lit ''Usage: python mock_ssh.py <host> <cmd>'']
   \<and> snd (main [lit ''mock_ssh.py'']) = SysExit 1
   \<and> exit_status (snd (main [lit ''mock_ssh.py''])) = Some 1
   \<and> fst (main [lit ''mock_ssh.py'', lit ''server1''])
       = lit ''Usage: python mock_ssh.py <host> <cmd>'' @ [10]
   \<and> exit_status (snd (main [lit ''mock_ssh.py'', lit ''server1''])) = Some 1
   \<and> snd (main [lit ''mock_ssh.py'', lit ''server1'', lit ''uptime'']) = Normal
   \<and> exit_status (snd (main [lit ''mock_ssh.py'', lit ''server1'', lit ''uptime''])) = Some 0
   \<and> exit_status (snd (main [lit ''mock_ssh.py'', lit ''server1'', lit ''uptime'', lit ''extra'']))
       = Some 0"
  using main_exit_status [of "[]" "lit ''mock_ssh.py''"]
        main_exit_status [of "[lit ''server1'']" "lit ''mock_ssh.py''"]
        main_exit_status [of "[lit ''server1'', lit ''uptime'']" "lit ''mock_ssh.py''"]
        main_exit_status [of "[lit ''server1'', lit ''uptime'', lit ''extra'']" "lit ''mock_ssh.py''"]
  by (simp add: output_lines_def newline_def)

end
